theory Spec2Isabelle
  imports Main
begin

section \<open>Python strings and values\<close>

text \<open>
  A Python \<open>str\<close> is modelled as a \<open>string\<close> whose characters are the code points
  below 256. On these, \<open>str.isspace\<close> holds for the code points 9 to 13, 28 to 32,
  133 and 160, and \<open>str.lower\<close> adds 32 to the code points 65 to 90 and 192 to 222
  (215, the multiplication sign, apart).
\<close>

definition is_space :: "char \<Rightarrow> bool" where
  "is_space c =
     (let n = (of_char c :: nat)
      in (9 \<le> n \<and> n \<le> 13) \<or> (28 \<le> n \<and> n \<le> 32) \<or> n = 133 \<or> n = 160)"

text \<open>\<open>s.strip()\<close>: the whitespace at both ends is removed.\<close>

definition strip :: "string \<Rightarrow> string" where
  "strip s = rev (dropWhile is_space (rev (dropWhile is_space s)))"

definition is_upper :: "char \<Rightarrow> bool" where
  "is_upper c =
     (let n = (of_char c :: nat)
      in (65 \<le> n \<and> n \<le> 90) \<or> (192 \<le> n \<and> n \<le> 222 \<and> n \<noteq> 215))"

text \<open>
  Bit 5 (value 32) is clear in every upper-case code point, so adding 32 is setting
  that bit.
\<close>

fun lower_char :: "char \<Rightarrow> char" where
  "lower_char (Char b0 b1 b2 b3 b4 b5 b6 b7) =
     (if is_upper (Char b0 b1 b2 b3 b4 b5 b6 b7) then Char b0 b1 b2 b3 b4 True b6 b7
      else Char b0 b1 b2 b3 b4 b5 b6 b7)"

text \<open>\<open>s.lower()\<close>\<close>

definition lower :: "string \<Rightarrow> string" where
  "lower s = map lower_char s"

text \<open>\<open>sub in s\<close> on strings: \<open>sub\<close> occurs in \<open>s\<close> as a contiguous block.\<close>

primrec str_contains :: "string \<Rightarrow> string \<Rightarrow> bool" where
  "str_contains sub [] = (sub = [])"
| "str_contains sub (c # s) = (take (length sub) (c # s) = sub \<or> str_contains sub s)"

text \<open>
  The values that travel through \<open>build_return_dict\<close>: Python booleans and strings.
  Absence (\<open>None\<close>) is the \<open>None\<close> of \<open>option\<close>.
\<close>

datatype pyval = PyBool bool | PyStr string

text \<open>\<open>'%s' % v\<close>\<close>

fun py_str :: "pyval \<Rightarrow> string" where
  "py_str (PyBool b) = (if b then ''True'' else ''False'')"
| "py_str (PyStr s) = s"

text \<open>
  The argument of \<open>int()\<close> in \<open>validate_integer_value\<close>: a boolean, an integer, a
  string, or a list, which stands for the objects \<open>int()\<close> rejects by their type.
\<close>

datatype pyarg = ArgBool bool | ArgInt int | ArgStr string | ArgList "pyarg list"

section \<open>Errors\<close>

text \<open>
  The exceptions of \<open>dracclient.exceptions\<close> that the module raises, with the
  argument each is raised with, and the Python exceptions that its expressions can
  raise: \<open>AttributeError\<close> when \<open>.text\<close>, \<open>.lower()\<close> or \<open>.strip()\<close> is read
  from \<open>None\<close>, \<open>KeyError\<close> when a dictionary has no such key, \<open>ValueError\<close>
  and \<open>TypeError\<close> from \<open>int()\<close>.
\<close>

datatype error =
    DRACMissingResponseField string
  | DRACEmptyResponseField string
  | InvalidParameterValue string
  | AttributeError
  | KeyError string
  | ValueError
  | TypeError

section \<open>The element tree\<close>

text \<open>
  An element of \<open>ElementTree\<close>: its tag (\<open>{namespace}name\<close>), its text (\<open>None\<close>
  when it has none), its attribute dictionary and its children in document order.
\<close>

datatype element =
  Element (elem_tag: string) (elem_text: "string option")
          (attrib: "string \<rightharpoonup> string") (children: "element list")

text \<open>\<open>elem.iter()\<close>: the element and all its descendants, in document order.\<close>

fun iter :: "element \<Rightarrow> element list" where
  "iter (Element t x a cs) = Element t x a cs # concat (map iter cs)"

text \<open>
  \<open>doc.findall('.//' + q)\<close> and \<open>doc.find('.//' + q)\<close> for a qualified tag \<open>q\<close>:
  all the descendants of \<open>doc\<close> (not \<open>doc\<close> itself) with that tag, in document
  order, and the first of them. The path language itself is not modelled: \<open>q\<close> is
  compared with the tag, which is what the path language does for a namespace and a
  name free of its own characters (\<open>*\<close>, \<open>/\<close>, \<open>[\<close>, \<open>]\<close>, \<open>(\<close>, \<open>)\<close>,
  \<open>@\<close>, \<open>=\<close>, \<open>!\<close>, \<open>}\<close> and whitespace) and a namespace that is not empty.
\<close>

definition elem_findall :: "element \<Rightarrow> string \<Rightarrow> element list" where
  "elem_findall doc q = filter (\<lambda>e. elem_tag e = q) (concat (map iter (children doc)))"

definition elem_find :: "element \<Rightarrow> string \<Rightarrow> element option" where
  "elem_find doc q = (case elem_findall doc q of [] \<Rightarrow> None | e # _ \<Rightarrow> Some e)"

section \<open>Constants\<close>

definition NS_XMLSchema_Instance :: string where
  "NS_XMLSchema_Instance = ''http://www.w3.org/2001/XMLSchema-instance''"

text \<open>\<open>'{%s}%s' % (namespace, item)\<close>\<close>

definition qname :: "string \<Rightarrow> string \<Rightarrow> string" where
  "qname namespace item = ''{'' @ namespace @ ''}'' @ item"

text \<open>
  Modelled from the spec: \<open>constants.RebootRequired\<close>, whose module is not among the
  sources. The spec gives its three members as true, false and \<open>"optional"\<close>, and
  \<open>all()\<close> as the collection of the three.
\<close>

definition RebootRequired_true :: pyval where
  "RebootRequired_true = PyBool True"

definition RebootRequired_false :: pyval where
  "RebootRequired_false = PyBool False"

definition RebootRequired_optional :: pyval where
  "RebootRequired_optional = PyStr ''optional''"

definition RebootRequired_all :: "pyval list" where
  "RebootRequired_all = [RebootRequired_true, RebootRequired_false, RebootRequired_optional]"

definition REBOOT_REQUIRED :: "string \<rightharpoonup> pyval" where
  "REBOOT_REQUIRED =
     [''yes'' \<mapsto> RebootRequired_true,
      ''no'' \<mapsto> RebootRequired_false,
      ''optional'' \<mapsto> RebootRequired_optional]"

section \<open>Lookup\<close>

text \<open>
  \<open>find_xml\<close> returns an element or \<open>None\<close> when \<open>find_all\<close> is false and a list
  when it is true: \<open>find_xml\<close> is the first, \<open>find_xml_all\<close> the second.
\<close>

definition find_xml :: "element \<Rightarrow> string \<Rightarrow> string \<Rightarrow> element option" where
  "find_xml doc item namespace = elem_find doc (qname namespace item)"

definition find_xml_all :: "element \<Rightarrow> string \<Rightarrow> string \<Rightarrow> element list" where
  "find_xml_all doc item namespace = elem_findall doc (qname namespace item)"

definition is_attr_non_nil :: "element \<Rightarrow> bool" where
  "is_attr_non_nil elem = (attrib elem (qname NS_XMLSchema_Instance ''nil'') \<noteq> Some ''true'')"

section \<open>Field extraction\<close>

text \<open>\<open>item.text.strip()\<close>, which raises \<open>AttributeError\<close> when the text is \<open>None\<close>.\<close>

definition text_strip :: "element \<Rightarrow> error + string" where
  "text_strip item = (case elem_text item of None \<Rightarrow> Inl AttributeError | Some t \<Rightarrow> Inr (strip t))"

text \<open>\<open>item.text.lower()\<close> of an element that may be \<open>None\<close>.\<close>

definition text_lower :: "element option \<Rightarrow> error + string" where
  "text_lower found =
     (case found of
        None \<Rightarrow> Inl AttributeError
      | Some item \<Rightarrow>
          (case elem_text item of None \<Rightarrow> Inl AttributeError | Some t \<Rightarrow> Inr (lower t)))"

definition get_wsman_resource_attr ::
  "element \<Rightarrow> string \<Rightarrow> string \<Rightarrow> bool \<Rightarrow> bool \<Rightarrow> error + string option" where
  "get_wsman_resource_attr doc resource_uri attr_name nullable allow_missing =
     (case find_xml doc attr_name resource_uri of
        None \<Rightarrow>
          if allow_missing then Inr None
          else Inl (DRACMissingResponseField attr_name)
      | Some item \<Rightarrow>
          if \<not> nullable then
            (if elem_text item = None then Inl (DRACEmptyResponseField attr_name)
             else map_sum id Some (text_strip item))
          else
            (if is_attr_non_nil item then map_sum id Some (text_strip item)
             else Inr None))"

text \<open>The list comprehension \<open>[item.text.strip() for item in items]\<close>.\<close>

fun strip_each :: "element list \<Rightarrow> error + string list" where
  "strip_each [] = Inr []"
| "strip_each (item # items) =
     (case text_strip item of
        Inl e \<Rightarrow> Inl e
      | Inr s \<Rightarrow> (case strip_each items of Inl e \<Rightarrow> Inl e | Inr ss \<Rightarrow> Inr (s # ss)))"

definition get_all_wsman_resource_attrs ::
  "element \<Rightarrow> string \<Rightarrow> string \<Rightarrow> bool \<Rightarrow> error + string list" where
  "get_all_wsman_resource_attrs doc resource_uri attr_name nullable =
     (let items = find_xml_all doc attr_name resource_uri
      in if \<not> nullable then
           (if list_ex (\<lambda>item. elem_text item = None) items
            then Inl (DRACEmptyResponseField attr_name)
            else strip_each items)
         else strip_each (filter is_attr_non_nil items))"

section \<open>Derived values\<close>

definition is_commit_required :: "element \<Rightarrow> string \<Rightarrow> error + bool" where
  "is_commit_required doc resource_uri =
     map_sum id (str_contains ''pendingvalue'')
       (text_lower (find_xml doc ''SetResult'' resource_uri))"

definition is_reboot_required :: "element \<Rightarrow> string \<Rightarrow> error + bool" where
  "is_reboot_required doc resource_uri =
     map_sum id (\<lambda>t. t = ''yes'')
       (text_lower (find_xml doc ''RebootRequired'' resource_uri))"

definition reboot_required :: "element \<Rightarrow> string \<Rightarrow> error + pyval" where
  "reboot_required doc resource_uri =
     (case text_lower (find_xml doc ''RebootRequired'' resource_uri) of
        Inl e \<Rightarrow> Inl e
      | Inr k \<Rightarrow> (case REBOOT_REQUIRED k of None \<Rightarrow> Inl (KeyError k) | Some v \<Rightarrow> Inr v))"

section \<open>Result aggregation\<close>

definition invalid_reboot_msg :: "pyval \<Rightarrow> string" where
  "invalid_reboot_msg v =
     ''is_reboot_required_value must be a member of the '' @
     ''RebootRequired enumeration or None.  The passed value was '' @ py_str v"

text \<open>An argument that is \<open>None\<close> is computed from the document, any other is kept.\<close>

definition or_compute :: "pyval option \<Rightarrow> error + pyval \<Rightarrow> error + pyval" where
  "or_compute given computed = (case given of None \<Rightarrow> computed | Some v \<Rightarrow> Inr v)"

definition build_return_dict ::
  "element \<Rightarrow> string \<Rightarrow> pyval option \<Rightarrow> pyval option \<Rightarrow> pyval option
     \<Rightarrow> error + (string \<rightharpoonup> pyval)" where
  "build_return_dict doc resource_uri is_commit_required_value is_reboot_required_value
       commit_required_value =
     (case (case is_reboot_required_value of
              None \<Rightarrow> None
            | Some v \<Rightarrow> if v \<in> set RebootRequired_all then None else Some v) of
        Some bad \<Rightarrow> Inl (InvalidParameterValue (invalid_reboot_msg bad))
      | None \<Rightarrow>
          (case or_compute is_commit_required_value
                  (map_sum id PyBool (is_commit_required doc resource_uri)) of
             Inl e \<Rightarrow> Inl e
           | Inr c \<Rightarrow>
               (case or_compute is_reboot_required_value (reboot_required doc resource_uri) of
                  Inl e \<Rightarrow> Inl e
                | Inr r \<Rightarrow>
                    (case or_compute commit_required_value
                            (map_sum id PyBool (is_reboot_required doc resource_uri)) of
                       Inl e \<Rightarrow> Inl e
                     | Inr q \<Rightarrow>
                         Inr [''is_commit_required'' \<mapsto> c,
                              ''is_reboot_required'' \<mapsto> r,
                              ''commit_required'' \<mapsto> q]))))"

section \<open>Integer validation\<close>

definition is_digit :: "char \<Rightarrow> bool" where
  "is_digit c = (let n = (of_char c :: nat) in 48 \<le> n \<and> n \<le> 57)"

definition digit_val :: "char \<Rightarrow> nat" where
  "digit_val c = of_char c - 48"

text \<open>
  The digits of a decimal literal after its first digit: digits, with single
  underscores allowed between two digits.
\<close>

fun parse_digits :: "nat \<Rightarrow> string \<Rightarrow> nat option" where
  "parse_digits acc [] = Some acc"
| "parse_digits acc (c # cs) =
     (if is_digit c then parse_digits (acc * 10 + digit_val c) cs
      else if c = CHR ''_'' then
        (case cs of
           [] \<Rightarrow> None
         | d # ds \<Rightarrow> if is_digit d then parse_digits (acc * 10 + digit_val d) ds else None)
      else None)"

definition parse_unsigned :: "string \<Rightarrow> nat option" where
  "parse_unsigned s =
     (case s of
        [] \<Rightarrow> None
      | c # cs \<Rightarrow> if is_digit c then parse_digits (digit_val c) cs else None)"

text \<open>
  \<open>int(s)\<close> for a string. The whitespace \<open>int\<close> ignores at both ends is the code
  points 9 to 13, 32, 133 and 160: the code points 28 to 31, which \<open>strip\<close> removes,
  are not among them. An optional sign and a decimal literal must fill the rest, and a
  literal of more than 4300 digits is refused (\<open>sys.get_int_max_str_digits()\<close>). Every
  refusal is a \<open>ValueError\<close>.
\<close>

definition is_int_space :: "char \<Rightarrow> bool" where
  "is_int_space c =
     (let n = (of_char c :: nat)
      in (9 \<le> n \<and> n \<le> 13) \<or> n = 32 \<or> n = 133 \<or> n = 160)"

definition int_strip :: "string \<Rightarrow> string" where
  "int_strip s = rev (dropWhile is_int_space (rev (dropWhile is_int_space s)))"

definition int_max_str_digits :: nat where
  "int_max_str_digits = 4300"

definition int_of_str :: "string \<Rightarrow> int option" where
  "int_of_str s =
     (let t = int_strip s
      in if int_max_str_digits < length (filter is_digit t) then None
         else
           (case t of
              [] \<Rightarrow> None
            | c # cs \<Rightarrow>
                if c = CHR ''-'' then map_option (\<lambda>n. - int n) (parse_unsigned cs)
                else if c = CHR ''+'' then map_option int (parse_unsigned cs)
                else map_option int (parse_unsigned (c # cs))))"

fun py_int :: "pyarg \<Rightarrow> error + int" where
  "py_int (ArgBool b) = Inr (if b then 1 else 0)"
| "py_int (ArgInt i) = Inr i"
| "py_int (ArgStr s) = (case int_of_str s of None \<Rightarrow> Inl ValueError | Some i \<Rightarrow> Inr i)"
| "py_int (ArgList xs) = Inl TypeError"

definition not_supplied_msg :: "string \<Rightarrow> string" where
  "not_supplied_msg attr_name = [CHR 0x27] @ attr_name @ [CHR 0x27] @ '' is not supplied''"

definition not_integer_msg :: "string \<Rightarrow> string" where
  "not_integer_msg attr_name =
     [CHR 0x27] @ attr_name @ [CHR 0x27] @ '' is not an integer value''"

text \<open>
  \<open>validate_integer_value\<close> returns nothing and appends to \<open>error_msgs\<close>: the model
  returns the list after the call, or the exception that leaves the function.
\<close>

definition validate_integer_value ::
  "pyarg option \<Rightarrow> string \<Rightarrow> string list \<Rightarrow> error + string list" where
  "validate_integer_value val attr_name error_msgs =
     (case val of
        None \<Rightarrow> Inr (error_msgs @ [not_supplied_msg attr_name])
      | Some v \<Rightarrow>
          (case py_int v of
             Inr i \<Rightarrow> Inr error_msgs
           | Inl ValueError \<Rightarrow> Inr (error_msgs @ [not_integer_msg attr_name])
           | Inl e \<Rightarrow> Inl e))"

section \<open>Sample documents\<close>

text \<open>
  A response of the shape the callers pass in: a SOAP envelope whose body holds one
  output element, with the fields of the resource as its children.
\<close>

definition sample_uri :: string where
  "sample_uri = ''http://schemas.dell.com/wbem/wscim/1/cim-schema/2/DCIM_BIOSService''"

definition field :: "string \<Rightarrow> string option \<Rightarrow> (string \<rightharpoonup> string) \<Rightarrow> element" where
  "field name txt attrs = Element (qname sample_uri name) txt attrs []"

definition response :: "element list \<Rightarrow> element" where
  "response fields =
     Element ''{http://www.w3.org/2003/05/soap-envelope}Envelope'' None Map.empty
       [Element ''{http://www.w3.org/2003/05/soap-envelope}Body'' None Map.empty
          [Element (qname sample_uri ''SetAttribute_OUTPUT'') None Map.empty fields]]"

text \<open>The attribute dictionary of an element marked nil.\<close>

definition nil_attr :: "string \<rightharpoonup> string" where
  "nil_attr = [''{http://www.w3.org/2001/XMLSchema-instance}nil'' \<mapsto> ''true'']"

section \<open>Auxiliary facts\<close>

lemmas find_defs = find_xml_def find_xml_all_def elem_find_def elem_findall_def qname_def
lemmas sample_defs = response_def field_def sample_uri_def
lemmas reboot_defs = REBOOT_REQUIRED_def RebootRequired_all_def RebootRequired_true_def
  RebootRequired_false_def RebootRequired_optional_def
lemmas str_defs = lower_def is_upper_def strip_def is_space_def
lemmas int_defs = int_of_str_def int_strip_def is_int_space_def int_max_str_digits_def
  parse_unsigned_def is_digit_def digit_val_def

lemma strip_each_texts:
  "map elem_text items = map Some ts \<Longrightarrow> strip_each items = Inr (map strip ts)"
  by (induction items arbitrary: ts) (auto simp: text_strip_def)

lemma strip_each_no_text:
  "\<exists>item \<in> set items. elem_text item = None \<Longrightarrow> strip_each items = Inl AttributeError"
proof (induction items)
  case Nil
  then show ?case by simp
next
  case (Cons item items)
  show ?case
  proof (cases "elem_text item")
    case None
    then show ?thesis by (simp add: text_strip_def)
  next
    case (Some t)
    with Cons.prems have "\<exists>i \<in> set items. elem_text i = None" by auto
    then have "strip_each items = Inl AttributeError" by (rule Cons.IH)
    then show ?thesis by (simp add: text_strip_def Some)
  qed
qed

lemma all_texts:
  "\<not> (\<exists>item \<in> set items. elem_text item = None) \<Longrightarrow> \<exists>ts. map elem_text items = map Some ts"
proof (induction items)
  case Nil
  then show ?case by simp
next
  case (Cons item items)
  then obtain ts where "map elem_text items = map Some ts" by auto
  moreover from Cons.prems obtain t where "elem_text item = Some t" by auto
  ultimately have "map elem_text (item # items) = map Some (t # ts)" by simp
  then show ?case by blast
qed

lemma lower_char_upper: "is_upper c \<Longrightarrow> (of_char (lower_char c) :: nat) = of_char c + 32"
proof (cases c)
  case (Char b0 b1 b2 b3 b4 b5 b6 b7)
  assume "is_upper c"
  with Char show ?thesis
    by (cases b0; cases b1; cases b2; cases b3; cases b4; cases b5; cases b6; cases b7)
      (simp_all add: is_upper_def)
qed

lemma lower_char_other: "\<not> is_upper c \<Longrightarrow> lower_char c = c"
  by (cases c) simp

lemma lower_char_y: "lower_char c = CHR ''y'' \<longleftrightarrow> c = CHR ''y'' \<or> c = CHR ''Y''"
  by (cases c) (auto simp: is_upper_def)

lemma lower_char_e: "lower_char c = CHR ''e'' \<longleftrightarrow> c = CHR ''e'' \<or> c = CHR ''E''"
  by (cases c) (auto simp: is_upper_def)

lemma lower_char_s: "lower_char c = CHR ''s'' \<longleftrightarrow> c = CHR ''s'' \<or> c = CHR ''S''"
  by (cases c) (auto simp: is_upper_def)

lemma map_eq_three:
  "map f t = [a, b, c] \<longleftrightarrow> (\<exists>x y z. t = [x, y, z] \<and> f x = a \<and> f y = b \<and> f z = c)"
  by (auto simp: map_eq_Cons_conv)

lemma lower_yes_iff:
  "lower t = ''yes'' \<longleftrightarrow>
     t \<in> {''yes'', ''yeS'', ''yEs'', ''yES'', ''Yes'', ''YeS'', ''YEs'', ''YES''}"
  unfolding lower_def map_eq_three lower_char_y lower_char_e lower_char_s by auto

lemma str_contains_iff: "str_contains sub s \<longleftrightarrow> (\<exists>p q. s = p @ sub @ q)"
proof (induction s)
  case Nil
  then show ?case by auto
next
  case (Cons c s)
  have here: "take (length sub) (c # s) = sub \<longleftrightarrow> (\<exists>q. c # s = sub @ q)"
    by (metis append_eq_conv_conj)
  have "(\<exists>p q. c # s = p @ sub @ q) \<longleftrightarrow>
          (\<exists>q. c # s = sub @ q) \<or> (\<exists>p q. s = p @ sub @ q)"
  proof
    assume "\<exists>p q. c # s = p @ sub @ q"
    then obtain p q where pq: "c # s = p @ sub @ q" by blast
    show "(\<exists>q. c # s = sub @ q) \<or> (\<exists>p q. s = p @ sub @ q)"
      using pq by (cases p) auto
  next
    assume "(\<exists>q. c # s = sub @ q) \<or> (\<exists>p q. s = p @ sub @ q)"
    then show "\<exists>p q. c # s = p @ sub @ q"
      by (metis append_Cons append_Nil)
  qed
  with here Cons show ?case by simp
qed

text \<open>
  \<open>int()\<close> and \<open>strip\<close> differ on the separators 28 to 31, \<open>int()\<close> refuses a
  literal of more than 4300 digits, and a string never gives a \<open>TypeError\<close>.
\<close>

lemma int_of_str_separator:
  "int_of_str [CHR 0x1C, CHR ''4'', CHR ''2''] = None \<and> strip [CHR 0x1C, CHR ''4'', CHR ''2''] = ''42''
   \<and> int_of_str [CHR 0xA0, CHR ''4'', CHR ''2'', CHR 0x85] = Some 42"
  by (simp add: int_defs str_defs)

lemma int_of_str_too_long:
  "int_max_str_digits < n \<Longrightarrow> int_of_str (replicate n (CHR ''0'')) = None"
proof -
  assume n: "int_max_str_digits < n"
  have d: "is_digit (CHR ''0'')" and w: "\<not> is_int_space (CHR ''0'')"
    by (simp_all add: is_digit_def is_int_space_def)
  have "dropWhile is_int_space (replicate n (CHR ''0'')) = replicate n (CHR ''0'')"
    using w by (cases n) simp_all
  then have "int_strip (replicate n (CHR ''0'')) = replicate n (CHR ''0'')"
    by (simp add: int_strip_def)
  moreover have "filter is_digit (replicate n (CHR ''0'')) = replicate n (CHR ''0'')"
    using d by simp
  ultimately show ?thesis
    using n by (simp add: int_of_str_def)
qed

lemma py_int_str_no_type_error: "py_int (ArgStr s) \<noteq> Inl TypeError"
  by (simp split: option.splits)

lemma find_xml_first:
  "find_xml doc item namespace =
     (case find_xml_all doc item namespace of [] \<Rightarrow> None | e # _ \<Rightarrow> Some e)"
  by (simp add: find_xml_def find_xml_all_def elem_find_def)

lemma find_xml_None_iff:
  "find_xml doc item namespace = None \<longleftrightarrow>
     (\<forall>e \<in> set (concat (map iter (children doc))). elem_tag e \<noteq> qname namespace item)"
proof -
  have "find_xml doc item namespace = None \<longleftrightarrow> elem_findall doc (qname namespace item) = []"
    by (simp add: find_xml_def elem_find_def split: list.splits)
  then show ?thesis
    by (simp add: elem_findall_def filter_empty_conv)
qed

lemma find_xml_Some_tag:
  "find_xml doc item namespace = Some e \<Longrightarrow> elem_tag e = qname namespace item"
proof -
  assume "find_xml doc item namespace = Some e"
  then have "e \<in> set (elem_findall doc (qname namespace item))"
    by (auto simp: find_xml_def elem_find_def split: list.splits)
  then show ?thesis by (simp add: elem_findall_def)
qed

section \<open>Result aggregation: the computed fields\<close>

text \<open>
  Claim C1, amended. Without overrides, \<open>build_return_dict\<close> returns a dictionary
  exactly on the documents in which the \<open>SetResult\<close> and \<open>RebootRequired\<close> elements
  are present with a text and the lower-cased text of \<open>RebootRequired\<close> is a key of
  \<open>REBOOT_REQUIRED\<close> (\<open>yes\<close>, \<open>no\<close> or \<open>optional\<close>). On these its
  \<open>is_commit_required\<close> entry is the result of \<open>is_commit_required\<close> (the text of
  \<open>SetResult\<close>, lower-cased, contains \<open>pendingvalue\<close>), its \<open>is_reboot_required\<close>
  entry is the result of \<open>reboot_required\<close> (the table at the lower-cased text of
  \<open>RebootRequired\<close>) and its \<open>commit_required\<close> entry is the result of
  \<open>is_reboot_required\<close> (that lower-cased text equals \<open>yes\<close>): a \<open>SetResult\<close> text
  \<open>pendingValue\<close> and a \<open>RebootRequired\<close> text \<open>No\<close> give true, false, false. On
  every other document the exception of the first reader that raises leaves
  \<open>build_return_dict\<close>.
\<close>

theorem build_return_dict_computed:
  "build_return_dict doc uri None None None =
     (case is_commit_required doc uri of
        Inl e \<Rightarrow> Inl e
      | Inr c \<Rightarrow>
          (case reboot_required doc uri of
             Inl e \<Rightarrow> Inl e
           | Inr r \<Rightarrow>
               (case is_reboot_required doc uri of
                  Inl e \<Rightarrow> Inl e
                | Inr q \<Rightarrow>
                    Inr [''is_commit_required'' \<mapsto> PyBool c,
                         ''is_reboot_required'' \<mapsto> r,
                         ''commit_required'' \<mapsto> PyBool q])))
   \<and> (\<forall>s r ts tr v.
         find_xml doc ''SetResult'' uri = Some s \<and> elem_text s = Some ts \<and>
         find_xml doc ''RebootRequired'' uri = Some r \<and> elem_text r = Some tr \<and>
         REBOOT_REQUIRED (lower tr) = Some v \<longrightarrow>
         build_return_dict doc uri None None None =
           Inr [''is_commit_required'' \<mapsto> PyBool (str_contains ''pendingvalue'' (lower ts)),
                ''is_reboot_required'' \<mapsto> v,
                ''commit_required'' \<mapsto> PyBool (lower tr = ''yes'')])
   \<and> ((\<exists>m. build_return_dict doc uri None None None = Inr m) \<longleftrightarrow>
        (\<exists>s r ts tr.
           find_xml doc ''SetResult'' uri = Some s \<and> elem_text s = Some ts \<and>
           find_xml doc ''RebootRequired'' uri = Some r \<and> elem_text r = Some tr \<and>
           lower tr \<in> {''yes'', ''no'', ''optional''}))"
proof (intro conjI allI impI)
  show eq: "build_return_dict doc uri None None None =
     (case is_commit_required doc uri of
        Inl e \<Rightarrow> Inl e
      | Inr c \<Rightarrow>
          (case reboot_required doc uri of
             Inl e \<Rightarrow> Inl e
           | Inr r \<Rightarrow>
               (case is_reboot_required doc uri of
                  Inl e \<Rightarrow> Inl e
                | Inr q \<Rightarrow>
                    Inr [''is_commit_required'' \<mapsto> PyBool c,
                         ''is_reboot_required'' \<mapsto> r,
                         ''commit_required'' \<mapsto> PyBool q])))"
    by (simp add: build_return_dict_def or_compute_def split: sum.splits)
  have dom: "REBOOT_REQUIRED k \<noteq> None \<longleftrightarrow> k \<in> {''yes'', ''no'', ''optional''}" for k
    by (simp add: reboot_defs)
  show "(\<exists>m. build_return_dict doc uri None None None = Inr m) \<longleftrightarrow>
        (\<exists>s r ts tr.
           find_xml doc ''SetResult'' uri = Some s \<and> elem_text s = Some ts \<and>
           find_xml doc ''RebootRequired'' uri = Some r \<and> elem_text r = Some tr \<and>
           lower tr \<in> {''yes'', ''no'', ''optional''})"
  proof
    assume "\<exists>m. build_return_dict doc uri None None None = Inr m"
    then obtain c r where c: "is_commit_required doc uri = Inr c"
      and r: "reboot_required doc uri = Inr r"
      unfolding eq by (auto split: sum.splits)
    from c obtain s ts where s: "find_xml doc ''SetResult'' uri = Some s" "elem_text s = Some ts"
      by (auto simp: is_commit_required_def text_lower_def split: option.splits)
    from r obtain e tr where e: "find_xml doc ''RebootRequired'' uri = Some e"
      "elem_text e = Some tr" and k: "REBOOT_REQUIRED (lower tr) \<noteq> None"
      by (auto simp: reboot_required_def text_lower_def split: option.splits)
    from k have "lower tr \<in> {''yes'', ''no'', ''optional''}"
      using dom by blast
    with s e show "\<exists>s r ts tr.
           find_xml doc ''SetResult'' uri = Some s \<and> elem_text s = Some ts \<and>
           find_xml doc ''RebootRequired'' uri = Some r \<and> elem_text r = Some tr \<and>
           lower tr \<in> {''yes'', ''no'', ''optional''}"
      by blast
  next
    assume "\<exists>s r ts tr.
           find_xml doc ''SetResult'' uri = Some s \<and> elem_text s = Some ts \<and>
           find_xml doc ''RebootRequired'' uri = Some r \<and> elem_text r = Some tr \<and>
           lower tr \<in> {''yes'', ''no'', ''optional''}"
    then obtain s r ts tr where h: "find_xml doc ''SetResult'' uri = Some s"
      "elem_text s = Some ts" "find_xml doc ''RebootRequired'' uri = Some r"
      "elem_text r = Some tr"
      and m: "lower tr \<in> {''yes'', ''no'', ''optional''}" by blast
    from m obtain v where "REBOOT_REQUIRED (lower tr) = Some v"
      using dom by blast
    with h show "\<exists>m. build_return_dict doc uri None None None = Inr m"
      by (simp add: build_return_dict_def or_compute_def is_commit_required_def
          reboot_required_def is_reboot_required_def text_lower_def)
  qed
next
  fix s r ts tr v
  assume "find_xml doc ''SetResult'' uri = Some s \<and> elem_text s = Some ts \<and>
         find_xml doc ''RebootRequired'' uri = Some r \<and> elem_text r = Some tr \<and>
         REBOOT_REQUIRED (lower tr) = Some v"
  then show "build_return_dict doc uri None None None =
           Inr [''is_commit_required'' \<mapsto> PyBool (str_contains ''pendingvalue'' (lower ts)),
                ''is_reboot_required'' \<mapsto> v,
                ''commit_required'' \<mapsto> PyBool (lower tr = ''yes'')]"
    by (simp add: build_return_dict_def or_compute_def is_commit_required_def
        reboot_required_def is_reboot_required_def text_lower_def)
qed


theorem build_return_dict_computed_witness:
  "build_return_dict
     (response [field ''SetResult'' (Some ''pendingValue'') Map.empty,
                field ''RebootRequired'' (Some ''No'') Map.empty,
                field ''ReturnValue'' (Some ''0'') Map.empty])
     sample_uri None None None =
   Inr [''is_commit_required'' \<mapsto> PyBool True,
        ''is_reboot_required'' \<mapsto> PyBool False,
        ''commit_required'' \<mapsto> PyBool False]"
proof -
  let ?doc = "response [field ''SetResult'' (Some ''pendingValue'') Map.empty,
                        field ''RebootRequired'' (Some ''No'') Map.empty,
                        field ''ReturnValue'' (Some ''0'') Map.empty]"
  have s: "find_xml ?doc ''SetResult'' sample_uri =
             Some (field ''SetResult'' (Some ''pendingValue'') Map.empty)"
    by (simp add: find_defs sample_defs)
  have r: "find_xml ?doc ''RebootRequired'' sample_uri =
             Some (field ''RebootRequired'' (Some ''No'') Map.empty)"
    by (simp add: find_defs sample_defs)
  have ts: "elem_text (field ''SetResult'' (Some ''pendingValue'') Map.empty) = Some ''pendingValue''"
    and tr: "elem_text (field ''RebootRequired'' (Some ''No'') Map.empty) = Some ''No''"
    by (simp_all add: field_def)
  have v: "REBOOT_REQUIRED (lower ''No'') = Some (PyBool False)"
    by (simp add: reboot_defs lower_def is_upper_def)
  have c: "str_contains ''pendingvalue'' (lower ''pendingValue'')"
    and q: "lower ''No'' \<noteq> ''yes''"
    by (simp_all add: lower_def is_upper_def)
  have "build_return_dict ?doc sample_uri None None None =
          Inr [''is_commit_required'' \<mapsto> PyBool (str_contains ''pendingvalue'' (lower ''pendingValue'')),
               ''is_reboot_required'' \<mapsto> PyBool False,
               ''commit_required'' \<mapsto> PyBool (lower ''No'' = ''yes'')]"
    using build_return_dict_computed [of ?doc sample_uri] s r ts tr v by blast
  with c q show ?thesis by simp
qed


text \<open>
  A document without the two elements, and one whose \<open>RebootRequired\<close> text is not in
  the table: no dictionary is returned, the reader's \<open>AttributeError\<close> or \<open>KeyError\<close>
  is raised.
\<close>

theorem build_return_dict_computed_counterexample:
  "build_return_dict (response []) sample_uri None None None = Inl AttributeError
   \<and> build_return_dict
       (response [field ''SetResult'' (Some ''Success'') Map.empty,
                  field ''RebootRequired'' (Some ''Maybe'') Map.empty])
       sample_uri None None None = Inl (KeyError ''maybe'')"
  by (simp add: build_return_dict_def or_compute_def is_commit_required_def reboot_required_def
      is_reboot_required_def text_lower_def find_defs sample_defs reboot_defs lower_def
      is_upper_def)

section \<open>Result aggregation: the validation of the override\<close>

text \<open>
  Claim C2. \<open>build_return_dict\<close> raises \<open>InvalidParameterValue\<close> if and only if
  \<open>is_reboot_required_value\<close> is given and is none of true, false and \<open>"optional"\<close>.
  When it does, the result is that exception whatever the document, the resource URI
  and the other two arguments are, so nothing was read from the document and no
  dictionary is returned. With \<open>"maybe"\<close> it raises.
\<close>

theorem build_return_dict_invalid_override:
  "((\<exists>msg. build_return_dict doc uri c r q = Inl (InvalidParameterValue msg)) \<longleftrightarrow>
      (\<exists>v. r = Some v \<and> v \<notin> {PyBool True, PyBool False, PyStr ''optional''}))
   \<and> (\<forall>v. r = Some v \<and> v \<notin> {PyBool True, PyBool False, PyStr ''optional''} \<longrightarrow>
         (\<forall>doc' uri' c' q'.
            build_return_dict doc' uri' c' r q' =
              Inl (InvalidParameterValue (invalid_reboot_msg v))))
   \<and> build_return_dict doc uri c (Some (PyStr ''maybe'')) q =
       Inl (InvalidParameterValue
         (''is_reboot_required_value must be a member of the RebootRequired '' @
          ''enumeration or None.  The passed value was maybe''))"
proof (intro conjI allI impI)
  have no_ipv: "is_commit_required d u \<noteq> Inl (InvalidParameterValue m)"
    "is_reboot_required d u \<noteq> Inl (InvalidParameterValue m)"
    "reboot_required d u \<noteq> Inl (InvalidParameterValue m)" for d u m
    by (auto simp: is_commit_required_def is_reboot_required_def reboot_required_def
        text_lower_def map_sum_def split: option.splits sum.splits)
  show "(\<exists>msg. build_return_dict doc uri c r q = Inl (InvalidParameterValue msg)) \<longleftrightarrow>
      (\<exists>v. r = Some v \<and> v \<notin> {PyBool True, PyBool False, PyStr ''optional''})"
  proof (cases "\<exists>v. r = Some v \<and> v \<notin> {PyBool True, PyBool False, PyStr ''optional''}")
    case True
    then show ?thesis
      by (auto simp: build_return_dict_def reboot_defs)
  next
    case False
    then have ok: "(case r of None \<Rightarrow> None
                   | Some v \<Rightarrow> if v \<in> set RebootRequired_all then None else Some v) = None"
      by (auto simp: reboot_defs split: option.splits)
    have "build_return_dict doc uri c r q \<noteq> Inl (InvalidParameterValue msg)" for msg
      using no_ipv [of doc uri msg]
      by (auto simp: build_return_dict_def ok or_compute_def map_sum_def
          split: option.splits sum.splits)
    with False show ?thesis by blast
  qed
next
  fix v doc' uri' c' q'
  assume "r = Some v \<and> v \<notin> {PyBool True, PyBool False, PyStr ''optional''}"
  then show "build_return_dict doc' uri' c' r q' =
              Inl (InvalidParameterValue (invalid_reboot_msg v))"
    by (auto simp: build_return_dict_def reboot_defs)
next
  show "build_return_dict doc uri c (Some (PyStr ''maybe'')) q =
       Inl (InvalidParameterValue
         (''is_reboot_required_value must be a member of the RebootRequired '' @
          ''enumeration or None.  The passed value was maybe''))"
    by (simp add: build_return_dict_def reboot_defs invalid_reboot_msg_def)
qed

theorem build_return_dict_invalid_override_witness:
  "(\<exists>msg. build_return_dict (response []) sample_uri None (Some (PyStr ''maybe'')) None =
            Inl (InvalidParameterValue msg))
   \<and> \<not> (\<exists>msg. build_return_dict (response []) sample_uri None (Some (PyStr ''optional'')) None =
            Inl (InvalidParameterValue msg))
   \<and> build_return_dict (response []) sample_uri None (Some (PyBool True)) None = Inl AttributeError
   \<and> build_return_dict (response []) sample_uri (Some (PyBool True)) (Some (PyBool False))
        (Some (PyBool False)) =
       Inr [''is_commit_required'' \<mapsto> PyBool True, ''is_reboot_required'' \<mapsto> PyBool False,
            ''commit_required'' \<mapsto> PyBool False]"
proof -
  have a: "\<exists>msg. build_return_dict (response []) sample_uri None (Some (PyStr ''maybe'')) None =
            Inl (InvalidParameterValue msg)"
    using build_return_dict_invalid_override
      [of "response []" sample_uri None "Some (PyStr ''maybe'')" None]
    by simp
  have b: "\<not> (\<exists>msg. build_return_dict (response []) sample_uri None (Some (PyStr ''optional'')) None =
            Inl (InvalidParameterValue msg))"
    using build_return_dict_invalid_override
      [of "response []" sample_uri None "Some (PyStr ''optional'')" None]
    by simp
  have c: "build_return_dict (response []) sample_uri None (Some (PyBool True)) None = Inl AttributeError"
    by (simp add: build_return_dict_def reboot_defs or_compute_def is_commit_required_def
        text_lower_def find_defs sample_defs)
  have d: "build_return_dict (response []) sample_uri (Some (PyBool True)) (Some (PyBool False))
        (Some (PyBool False)) =
       Inr [''is_commit_required'' \<mapsto> PyBool True, ''is_reboot_required'' \<mapsto> PyBool False,
            ''commit_required'' \<mapsto> PyBool False]"
    by (simp add: build_return_dict_def reboot_defs or_compute_def)
  from a b c d show ?thesis by blast
qed

section \<open>Single field: the field is missing\<close>

text \<open>
  Claim C3. When the document has no element for the field,
  \<open>get_wsman_resource_attr\<close> returns \<open>None\<close> if \<open>allow_missing\<close> is true and
  raises \<open>DRACMissingResponseField\<close> with the attribute name if it is false,
  whatever \<open>nullable\<close> is.
\<close>

theorem get_wsman_resource_attr_missing:
  "find_xml doc attr_name uri = None \<Longrightarrow>
     get_wsman_resource_attr doc uri attr_name nullable True = Inr None \<and>
     get_wsman_resource_attr doc uri attr_name nullable False =
       Inl (DRACMissingResponseField attr_name)"
  by (simp add: get_wsman_resource_attr_def)

theorem get_wsman_resource_attr_missing_witness:
  "find_xml (response [field ''RebootRequired'' (Some ''No'') Map.empty]) ''SetResult'' sample_uri = None
   \<and> get_wsman_resource_attr (response [field ''RebootRequired'' (Some ''No'') Map.empty])
        sample_uri ''SetResult'' True True = Inr None
   \<and> get_wsman_resource_attr (response [field ''RebootRequired'' (Some ''No'') Map.empty])
        sample_uri ''SetResult'' False False = Inl (DRACMissingResponseField ''SetResult'')"
proof -
  have m: "find_xml (response [field ''RebootRequired'' (Some ''No'') Map.empty])
             ''SetResult'' sample_uri = None"
    by (simp add: find_defs sample_defs)
  from m get_wsman_resource_attr_missing [OF m, of True]
    get_wsman_resource_attr_missing [OF m, of False]
  show ?thesis by blast
qed

section \<open>Single field: not nullable\<close>

text \<open>
  Claim C4, amended. When the element of the field is present and \<open>nullable\<close> is
  false, \<open>get_wsman_resource_attr\<close> raises \<open>DRACEmptyResponseField\<close> with the
  attribute name when the element has no text (its text is \<open>None\<close>), and returns
  the text with the whitespace at both ends removed when it has one: \<open>"  v  "\<close>
  gives \<open>"v"\<close>. A text that is the empty string is a text, and is returned as it is.
\<close>

theorem get_wsman_resource_attr_not_nullable:
  "find_xml doc attr_name uri = Some item \<Longrightarrow>
     get_wsman_resource_attr doc uri attr_name False allow_missing =
       (case elem_text item of
          None \<Rightarrow> Inl (DRACEmptyResponseField attr_name)
        | Some t \<Rightarrow> Inr (Some (strip t)))"
  by (simp add: get_wsman_resource_attr_def text_strip_def split: option.splits)

theorem get_wsman_resource_attr_not_nullable_witness:
  "get_wsman_resource_attr (response [field ''CurrentValue'' (Some ''  v  '') Map.empty])
     sample_uri ''CurrentValue'' False False = Inr (Some ''v'')
   \<and> get_wsman_resource_attr (response [field ''CurrentValue'' None Map.empty])
     sample_uri ''CurrentValue'' False False = Inl (DRACEmptyResponseField ''CurrentValue'')"
proof -
  have a: "find_xml (response [field ''CurrentValue'' (Some ''  v  '') Map.empty])
             ''CurrentValue'' sample_uri = Some (field ''CurrentValue'' (Some ''  v  '') Map.empty)"
    by (simp add: find_defs sample_defs)
  have b: "find_xml (response [field ''CurrentValue'' None Map.empty])
             ''CurrentValue'' sample_uri = Some (field ''CurrentValue'' None Map.empty)"
    by (simp add: find_defs sample_defs)
  from get_wsman_resource_attr_not_nullable [OF a, of False]
    get_wsman_resource_attr_not_nullable [OF b, of False]
  show ?thesis by (simp add: field_def str_defs)
qed

text \<open>
  The guard is \<open>item.text is None\<close>: an element whose text is the empty string
  passes it, and the empty string is returned where \<open>DRACEmptyResponseField\<close> might
  be expected.
\<close>

theorem get_wsman_resource_attr_empty_text_counterexample:
  "find_xml (response [field ''CurrentValue'' (Some '''') Map.empty]) ''CurrentValue'' sample_uri =
     Some (field ''CurrentValue'' (Some '''') Map.empty)
   \<and> elem_text (field ''CurrentValue'' (Some '''') Map.empty) = Some ''''
   \<and> get_wsman_resource_attr (response [field ''CurrentValue'' (Some '''') Map.empty])
       sample_uri ''CurrentValue'' False False = Inr (Some '''')"
  by (simp add: get_wsman_resource_attr_def text_strip_def find_defs sample_defs str_defs)

section \<open>Integer validation: what is appended\<close>

text \<open>
  Claim C5, amended. For a value that is \<open>None\<close>, a boolean, an integer or a string,
  \<open>validate_integer_value\<close> raises nothing: for \<open>None\<close> it appends
  \<open>'<name>' is not supplied\<close>, for a value that \<open>int()\<close> rejects with
  \<open>ValueError\<close> it appends \<open>'<name>' is not an integer value\<close>, and for a value
  that \<open>int()\<close> accepts (such as \<open>"42"\<close>) it leaves the list as it was. Only
  \<open>ValueError\<close> is caught: for a value that \<open>int()\<close> rejects by its type, such as
  a list, the \<open>TypeError\<close> leaves the function.
\<close>

theorem validate_integer_value_appends:
  "validate_integer_value None attr_name error_msgs =
     Inr (error_msgs @ [[CHR 0x27] @ attr_name @ [CHR 0x27] @ '' is not supplied''])
   \<and> (\<forall>v. (\<forall>xs. v \<noteq> ArgList xs) \<longrightarrow>
         validate_integer_value (Some v) attr_name error_msgs =
           (case py_int v of
              Inl e \<Rightarrow>
                Inr (error_msgs @ [[CHR 0x27] @ attr_name @ [CHR 0x27] @ '' is not an integer value''])
            | Inr i \<Rightarrow> Inr error_msgs))
   \<and> validate_integer_value (Some (ArgStr ''abc'')) attr_name error_msgs =
       Inr (error_msgs @ [[CHR 0x27] @ attr_name @ [CHR 0x27] @ '' is not an integer value''])
   \<and> validate_integer_value (Some (ArgStr ''42'')) attr_name error_msgs = Inr error_msgs
   \<and> validate_integer_value (Some (ArgInt 42)) attr_name error_msgs = Inr error_msgs
   \<and> (\<forall>xs. validate_integer_value (Some (ArgList xs)) attr_name error_msgs = Inl TypeError)"
proof (intro conjI allI impI)
  fix v
  assume "\<forall>xs. v \<noteq> ArgList xs"
  then show "validate_integer_value (Some v) attr_name error_msgs =
           (case py_int v of
              Inl e \<Rightarrow>
                Inr (error_msgs @ [[CHR 0x27] @ attr_name @ [CHR 0x27] @ '' is not an integer value''])
            | Inr i \<Rightarrow> Inr error_msgs)"
    by (cases v) (simp_all add: validate_integer_value_def not_integer_msg_def split: option.splits)
next
  show "validate_integer_value (Some (ArgStr ''abc'')) attr_name error_msgs =
       Inr (error_msgs @ [[CHR 0x27] @ attr_name @ [CHR 0x27] @ '' is not an integer value''])"
    by (simp add: validate_integer_value_def not_integer_msg_def int_defs)
next
  show "validate_integer_value (Some (ArgStr ''42'')) attr_name error_msgs = Inr error_msgs"
    by (simp add: validate_integer_value_def int_defs)
qed (simp_all add: validate_integer_value_def not_supplied_msg_def)

theorem validate_integer_value_appends_witness:
  "validate_integer_value None ''port'' [] = Inr [[CHR 0x27] @ ''port'' @ [CHR 0x27] @ '' is not supplied'']
   \<and> validate_integer_value (Some (ArgStr ''abc'')) ''port'' [] =
       Inr [[CHR 0x27] @ ''port'' @ [CHR 0x27] @ '' is not an integer value'']
   \<and> validate_integer_value (Some (ArgStr '' -4_2 '')) ''port'' [''x''] = Inr [''x'']
   \<and> validate_integer_value (Some (ArgStr ''4 2'')) ''port'' [''x''] =
       Inr [''x'', [CHR 0x27] @ ''port'' @ [CHR 0x27] @ '' is not an integer value'']"
proof -
  note inst = validate_integer_value_appends [of "''port''"]
  have a: "\<forall>xs. ArgStr '' -4_2 '' \<noteq> ArgList xs" "\<forall>xs. ArgStr ''4 2'' \<noteq> ArgList xs"
    by simp_all
  have p: "py_int (ArgStr '' -4_2 '') = Inr (- 42)" "py_int (ArgStr ''4 2'') = Inl ValueError"
    by (simp_all add: int_defs)
  have r3: "validate_integer_value (Some (ArgStr '' -4_2 '')) ''port'' [''x''] = Inr [''x'']"
    using inst [of "[''x'']"] a(1) p(1) by simp
  have r4: "validate_integer_value (Some (ArgStr ''4 2'')) ''port'' [''x''] =
       Inr [''x'', [CHR 0x27] @ ''port'' @ [CHR 0x27] @ '' is not an integer value'']"
    using inst [of "[''x'']"] a(2) p(2) by simp
  from inst [of "[]"] r3 r4 show ?thesis by simp
qed

text \<open>
  The list \<open>[42]\<close> is neither \<open>None\<close> nor a value \<open>int()\<close> rejects with
  \<open>ValueError\<close>: the \<open>TypeError\<close> is not caught.
\<close>

theorem validate_integer_value_counterexample:
  "validate_integer_value (Some (ArgList [ArgInt 42])) ''port'' [] = Inl TypeError"
  by (simp add: validate_integer_value_def)

section \<open>All the elements of a field\<close>

text \<open>
  Claim C6, amended. With \<open>nullable\<close> false, \<open>get_all_wsman_resource_attrs\<close>
  raises \<open>DRACEmptyResponseField\<close> exactly when one of the matching elements has no
  text (\<open>None\<close>), and otherwise returns the stripped text of every matching element
  in document order. With \<open>nullable\<close> true it leaves out the elements marked nil
  and, when each of the others has a text, returns their stripped texts in document
  order; when no element is left the result is the empty list.
\<close>

theorem get_all_wsman_resource_attrs_texts:
  "(get_all_wsman_resource_attrs doc uri attr_name False = Inl (DRACEmptyResponseField attr_name)
      \<longleftrightarrow> (\<exists>item \<in> set (find_xml_all doc attr_name uri). elem_text item = None))
   \<and> (\<forall>ts. map elem_text (find_xml_all doc attr_name uri) = map Some ts \<longrightarrow>
         get_all_wsman_resource_attrs doc uri attr_name False = Inr (map strip ts))
   \<and> (\<forall>ts. map elem_text (filter is_attr_non_nil (find_xml_all doc attr_name uri)) = map Some ts
         \<longrightarrow> get_all_wsman_resource_attrs doc uri attr_name True = Inr (map strip ts))
   \<and> (filter is_attr_non_nil (find_xml_all doc attr_name uri) = [] \<longrightarrow>
         get_all_wsman_resource_attrs doc uri attr_name True = Inr [])"
proof (intro conjI allI impI)
  let ?items = "find_xml_all doc attr_name uri"
  show "get_all_wsman_resource_attrs doc uri attr_name False = Inl (DRACEmptyResponseField attr_name)
      \<longleftrightarrow> (\<exists>item \<in> set ?items. elem_text item = None)"
  proof (cases "\<exists>item \<in> set ?items. elem_text item = None")
    case True
    then show ?thesis
      by (simp add: get_all_wsman_resource_attrs_def list_ex_iff Let_def)
  next
    case False
    then obtain ts where "map elem_text ?items = map Some ts"
      using all_texts by blast
    then have "strip_each ?items = Inr (map strip ts)"
      by (rule strip_each_texts)
    with False show ?thesis
      by (simp add: get_all_wsman_resource_attrs_def list_ex_iff Let_def)
  qed
next
  fix ts
  assume ts: "map elem_text (find_xml_all doc attr_name uri) = map Some ts"
  have "\<not> (\<exists>item \<in> set (find_xml_all doc attr_name uri). elem_text item = None)"
  proof
    assume "\<exists>item \<in> set (find_xml_all doc attr_name uri). elem_text item = None"
    then have "None \<in> set (map elem_text (find_xml_all doc attr_name uri))"
      by force
    with ts show False by auto
  qed
  with strip_each_texts [OF ts]
  show "get_all_wsman_resource_attrs doc uri attr_name False = Inr (map strip ts)"
    by (simp add: get_all_wsman_resource_attrs_def list_ex_iff Let_def)
next
  fix ts
  assume "map elem_text (filter is_attr_non_nil (find_xml_all doc attr_name uri)) = map Some ts"
  then show "get_all_wsman_resource_attrs doc uri attr_name True = Inr (map strip ts)"
    by (simp add: get_all_wsman_resource_attrs_def strip_each_texts Let_def)
next
  assume "filter is_attr_non_nil (find_xml_all doc attr_name uri) = []"
  then show "get_all_wsman_resource_attrs doc uri attr_name True = Inr []"
    by (simp add: get_all_wsman_resource_attrs_def Let_def)
qed

theorem get_all_wsman_resource_attrs_texts_witness:
  "get_all_wsman_resource_attrs
     (response [field ''PossibleValues'' (Some '' Enabled '') Map.empty,
                field ''CurrentValue'' (Some ''Enabled'') Map.empty,
                field ''PossibleValues'' (Some ''Disabled'') Map.empty])
     sample_uri ''PossibleValues'' False = Inr [''Enabled'', ''Disabled'']
   \<and> get_all_wsman_resource_attrs
     (response [field ''PossibleValues'' (Some ''Enabled'') Map.empty,
                field ''PossibleValues'' None Map.empty])
     sample_uri ''PossibleValues'' False = Inl (DRACEmptyResponseField ''PossibleValues'')
   \<and> get_all_wsman_resource_attrs
     (response [field ''PossibleValues'' None nil_attr,
                field ''PossibleValues'' (Some ''Disabled'') Map.empty,
                field ''PossibleValues'' (Some ''Enabled'') Map.empty])
     sample_uri ''PossibleValues'' True = Inr [''Disabled'', ''Enabled'']
   \<and> get_all_wsman_resource_attrs (response [field ''PossibleValues'' None nil_attr])
     sample_uri ''PossibleValues'' True = Inr []"
proof -
  let ?d1 = "response [field ''PossibleValues'' (Some '' Enabled '') Map.empty,
                field ''CurrentValue'' (Some ''Enabled'') Map.empty,
                field ''PossibleValues'' (Some ''Disabled'') Map.empty]"
  let ?d2 = "response [field ''PossibleValues'' (Some ''Enabled'') Map.empty,
                field ''PossibleValues'' None Map.empty]"
  let ?d3 = "response [field ''PossibleValues'' None nil_attr,
                field ''PossibleValues'' (Some ''Disabled'') Map.empty,
                field ''PossibleValues'' (Some ''Enabled'') Map.empty]"
  let ?d4 = "response [field ''PossibleValues'' None nil_attr]"
  have f1: "find_xml_all ?d1 ''PossibleValues'' sample_uri =
              [field ''PossibleValues'' (Some '' Enabled '') Map.empty,
               field ''PossibleValues'' (Some ''Disabled'') Map.empty]"
    by (simp add: find_defs sample_defs)
  have f2: "find_xml_all ?d2 ''PossibleValues'' sample_uri =
              [field ''PossibleValues'' (Some ''Enabled'') Map.empty,
               field ''PossibleValues'' None Map.empty]"
    by (simp add: find_defs sample_defs)
  have f3: "filter is_attr_non_nil (find_xml_all ?d3 ''PossibleValues'' sample_uri) =
              [field ''PossibleValues'' (Some ''Disabled'') Map.empty,
               field ''PossibleValues'' (Some ''Enabled'') Map.empty]"
    by (simp add: find_defs sample_defs is_attr_non_nil_def NS_XMLSchema_Instance_def nil_attr_def)
  have f4: "filter is_attr_non_nil (find_xml_all ?d4 ''PossibleValues'' sample_uri) = []"
    by (simp add: find_defs sample_defs is_attr_non_nil_def NS_XMLSchema_Instance_def nil_attr_def)
  have t1: "map elem_text (find_xml_all ?d1 ''PossibleValues'' sample_uri) =
              map Some ['' Enabled '', ''Disabled'']"
    unfolding f1 by (simp add: field_def)
  have t2: "\<exists>item \<in> set (find_xml_all ?d2 ''PossibleValues'' sample_uri). elem_text item = None"
    unfolding f2 by (simp add: field_def)
  have t3: "map elem_text (filter is_attr_non_nil (find_xml_all ?d3 ''PossibleValues'' sample_uri)) =
              map Some [''Disabled'', ''Enabled'']"
    unfolding f3 by (simp add: field_def)
  have s: "map strip ['' Enabled '', ''Disabled''] = [''Enabled'', ''Disabled'']"
    "map strip [''Disabled'', ''Enabled''] = [''Disabled'', ''Enabled'']"
    by (simp_all add: str_defs)
  note inst1 = get_all_wsman_resource_attrs_texts [of ?d1 sample_uri "''PossibleValues''"]
  note inst2 = get_all_wsman_resource_attrs_texts [of ?d2 sample_uri "''PossibleValues''"]
  note inst3 = get_all_wsman_resource_attrs_texts [of ?d3 sample_uri "''PossibleValues''"]
  note inst4 = get_all_wsman_resource_attrs_texts [of ?d4 sample_uri "''PossibleValues''"]
  have r1: "get_all_wsman_resource_attrs ?d1 sample_uri ''PossibleValues'' False =
              Inr [''Enabled'', ''Disabled'']"
    using inst1 t1 s by metis
  have r2: "get_all_wsman_resource_attrs ?d2 sample_uri ''PossibleValues'' False =
              Inl (DRACEmptyResponseField ''PossibleValues'')"
    using inst2 t2 by blast
  have r3: "get_all_wsman_resource_attrs ?d3 sample_uri ''PossibleValues'' True =
              Inr [''Disabled'', ''Enabled'']"
    using inst3 t3 s by metis
  have r4: "get_all_wsman_resource_attrs ?d4 sample_uri ''PossibleValues'' True = Inr []"
    using inst4 f4 by blast
  from r1 r2 r3 r4 show ?thesis by blast
qed

text \<open>
  With \<open>nullable\<close> true, a matching element that is not marked nil and has no text
  is not left out: reading its text raises \<open>AttributeError\<close>. With \<open>nullable\<close>
  false, a text that is the empty string is returned as the empty string.
\<close>

theorem get_all_wsman_resource_attrs_counterexample:
  "get_all_wsman_resource_attrs
     (response [field ''PossibleValues'' (Some ''Enabled'') Map.empty,
                field ''PossibleValues'' None Map.empty])
     sample_uri ''PossibleValues'' True = Inl AttributeError
   \<and> is_attr_non_nil (field ''PossibleValues'' None Map.empty)
   \<and> get_all_wsman_resource_attrs
     (response [field ''PossibleValues'' (Some ''Enabled'') Map.empty,
                field ''PossibleValues'' (Some '''') Map.empty])
     sample_uri ''PossibleValues'' False = Inr [''Enabled'', '''']"
  by (simp add: get_all_wsman_resource_attrs_def text_strip_def find_defs sample_defs
      is_attr_non_nil_def str_defs Let_def)

section \<open>Single field: nullable\<close>

text \<open>
  Claim C7, amended. When the element of the field is present and \<open>nullable\<close> is
  true, \<open>get_wsman_resource_attr\<close> returns \<open>None\<close> when the element is marked
  nil, and the stripped text when the element is not marked nil and has a text:
  \<open>"x"\<close> gives \<open>"x"\<close>.
\<close>

theorem get_wsman_resource_attr_nil_or_text:
  "find_xml doc attr_name uri = Some item \<Longrightarrow>
     (\<not> is_attr_non_nil item \<longrightarrow>
        get_wsman_resource_attr doc uri attr_name True allow_missing = Inr None) \<and>
     (\<forall>t. is_attr_non_nil item \<and> elem_text item = Some t \<longrightarrow>
        get_wsman_resource_attr doc uri attr_name True allow_missing = Inr (Some (strip t)))"
  by (simp add: get_wsman_resource_attr_def text_strip_def)

theorem get_wsman_resource_attr_nil_or_text_witness:
  "get_wsman_resource_attr
     (response [field ''PendingValue'' None
                  [''{http://www.w3.org/2001/XMLSchema-instance}nil'' \<mapsto> ''true'']])
     sample_uri ''PendingValue'' True False = Inr None
   \<and> get_wsman_resource_attr (response [field ''PendingValue'' (Some ''x'') Map.empty])
     sample_uri ''PendingValue'' True False = Inr (Some ''x'')"
proof -
  let ?nil = "field ''PendingValue'' None
                [''{http://www.w3.org/2001/XMLSchema-instance}nil'' \<mapsto> ''true'']"
  let ?x = "field ''PendingValue'' (Some ''x'') Map.empty"
  have a: "find_xml (response [?nil]) ''PendingValue'' sample_uri = Some ?nil"
    by (simp add: find_defs sample_defs)
  have b: "find_xml (response [?x]) ''PendingValue'' sample_uri = Some ?x"
    by (simp add: find_defs sample_defs)
  have n: "\<not> is_attr_non_nil ?nil"
    by (simp add: is_attr_non_nil_def field_def qname_def NS_XMLSchema_Instance_def)
  have x: "is_attr_non_nil ?x \<and> elem_text ?x = Some ''x''"
    by (simp add: is_attr_non_nil_def field_def)
  have s: "strip ''x'' = ''x''"
    by (simp add: str_defs)
  from get_wsman_resource_attr_nil_or_text [OF a, of False]
    get_wsman_resource_attr_nil_or_text [OF b, of False] n x s
  show ?thesis by metis
qed

text \<open>
  An element that is not marked nil and has no text: nothing is returned, reading the
  text raises \<open>AttributeError\<close>.
\<close>

theorem get_wsman_resource_attr_nil_or_text_counterexample:
  "find_xml (response [field ''PendingValue'' None Map.empty]) ''PendingValue'' sample_uri =
     Some (field ''PendingValue'' None Map.empty)
   \<and> is_attr_non_nil (field ''PendingValue'' None Map.empty)
   \<and> get_wsman_resource_attr (response [field ''PendingValue'' None Map.empty])
       sample_uri ''PendingValue'' True False = Inl AttributeError"
  by (simp add: get_wsman_resource_attr_def text_strip_def find_defs sample_defs
      is_attr_non_nil_def)

section \<open>The nil check\<close>

text \<open>
  Claim C8. \<open>_is_attr_non_nil\<close> is true unless the element has the attribute
  \<open>nil\<close> of the XMLSchema-instance namespace with exactly the value \<open>true\<close>: an
  element without the attribute, with the value \<open>True\<close> or \<open>false\<close>, or with a
  \<open>nil\<close> attribute of no namespace is non-nil.
\<close>

theorem is_attr_non_nil_iff:
  "(is_attr_non_nil elem \<longleftrightarrow>
      attrib elem ''{http://www.w3.org/2001/XMLSchema-instance}nil'' \<noteq> Some ''true'')
   \<and> is_attr_non_nil (Element t x Map.empty cs)
   \<and> is_attr_non_nil
       (Element t x [''{http://www.w3.org/2001/XMLSchema-instance}nil'' \<mapsto> ''True''] cs)
   \<and> is_attr_non_nil
       (Element t x [''{http://www.w3.org/2001/XMLSchema-instance}nil'' \<mapsto> ''false''] cs)
   \<and> is_attr_non_nil (Element t x [''nil'' \<mapsto> ''true''] cs)
   \<and> \<not> is_attr_non_nil
       (Element t x [''{http://www.w3.org/2001/XMLSchema-instance}nil'' \<mapsto> ''true''] cs)"
  by (simp add: is_attr_non_nil_def qname_def NS_XMLSchema_Instance_def)

section \<open>The reboot table\<close>

text \<open>
  Claim C9. When the \<open>RebootRequired\<close> element is present and has a text,
  \<open>reboot_required\<close> looks the lower-cased text up in \<open>REBOOT_REQUIRED\<close>:
  \<open>yes\<close> gives true, \<open>no\<close> gives false, \<open>optional\<close> gives \<open>"optional"\<close>, and
  any other text raises \<open>KeyError\<close>. The result is true exactly for the eight
  spellings of \<open>yes\<close> in upper and lower case, and \<open>Optional\<close> gives
  \<open>"optional"\<close>.
\<close>

theorem reboot_required_table:
  "find_xml doc ''RebootRequired'' uri = Some item \<Longrightarrow> elem_text item = Some t \<Longrightarrow>
     reboot_required doc uri =
       (if lower t = ''yes'' then Inr (PyBool True)
        else if lower t = ''no'' then Inr (PyBool False)
        else if lower t = ''optional'' then Inr (PyStr ''optional'')
        else Inl (KeyError (lower t))) \<and>
     (reboot_required doc uri = Inr (PyBool True) \<longleftrightarrow>
        t \<in> {''yes'', ''yeS'', ''yEs'', ''yES'', ''Yes'', ''YeS'', ''YEs'', ''YES''}) \<and>
     (t = ''no'' \<longrightarrow> reboot_required doc uri = Inr (PyBool False)) \<and>
     (t = ''Optional'' \<longrightarrow> reboot_required doc uri = Inr (PyStr ''optional''))"
proof -
  assume f: "find_xml doc ''RebootRequired'' uri = Some item" and t: "elem_text item = Some t"
  have eq: "reboot_required doc uri =
       (if lower t = ''yes'' then Inr (PyBool True)
        else if lower t = ''no'' then Inr (PyBool False)
        else if lower t = ''optional'' then Inr (PyStr ''optional'')
        else Inl (KeyError (lower t)))"
    by (simp add: reboot_required_def text_lower_def f t reboot_defs)
  have y: "reboot_required doc uri = Inr (PyBool True) \<longleftrightarrow>
        t \<in> {''yes'', ''yeS'', ''yEs'', ''yES'', ''Yes'', ''YeS'', ''YEs'', ''YES''}"
    unfolding eq lower_yes_iff [symmetric] by simp
  have n: "lower ''no'' = ''no''" and p: "lower ''Optional'' = ''optional''"
    by (simp_all add: lower_def is_upper_def)
  have no: "t = ''no'' \<longrightarrow> reboot_required doc uri = Inr (PyBool False)"
    unfolding eq using n by simp
  have opt: "t = ''Optional'' \<longrightarrow> reboot_required doc uri = Inr (PyStr ''optional'')"
    unfolding eq using p by simp
  from eq y no opt show ?thesis by blast
qed

theorem reboot_required_table_witness:
  "reboot_required (response [field ''RebootRequired'' (Some ''YES'') Map.empty]) sample_uri =
     Inr (PyBool True)
   \<and> reboot_required (response [field ''RebootRequired'' (Some ''Maybe'') Map.empty]) sample_uri =
     Inl (KeyError ''maybe'')"
proof -
  let ?y = "field ''RebootRequired'' (Some ''YES'') Map.empty"
  let ?m = "field ''RebootRequired'' (Some ''Maybe'') Map.empty"
  have a: "find_xml (response [?y]) ''RebootRequired'' sample_uri = Some ?y"
    by (simp add: find_defs sample_defs)
  have b: "find_xml (response [?m]) ''RebootRequired'' sample_uri = Some ?m"
    by (simp add: find_defs sample_defs)
  have ty: "elem_text ?y = Some ''YES''" and tm: "elem_text ?m = Some ''Maybe''"
    by (simp_all add: field_def)
  have l: "lower ''Maybe'' = ''maybe''"
    by (simp add: lower_def is_upper_def)
  have y: "reboot_required (response [?y]) sample_uri = Inr (PyBool True)"
    using reboot_required_table [OF a ty, THEN conjunct2, THEN conjunct1] by simp
  have m: "reboot_required (response [?m]) sample_uri = Inl (KeyError ''maybe'')"
    using reboot_required_table [OF b tm, THEN conjunct1] by (simp add: l)
  from y m show ?thesis by simp
qed

section \<open>Single field: nullable, not nil, no text\<close>

text \<open>
  Claim C10. With \<open>nullable\<close> true, an element that is not marked nil and has no
  text makes \<open>get_wsman_resource_attr\<close> raise \<open>AttributeError\<close>, where with
  \<open>nullable\<close> false it raises \<open>DRACEmptyResponseField\<close>; with \<open>nullable\<close> true
  \<open>DRACEmptyResponseField\<close> is never raised.
\<close>

theorem get_wsman_resource_attr_non_nil_no_text:
  "find_xml doc attr_name uri = Some item \<Longrightarrow> is_attr_non_nil item \<Longrightarrow>
   elem_text item = None \<Longrightarrow>
     get_wsman_resource_attr doc uri attr_name True allow_missing = Inl AttributeError \<and>
     get_wsman_resource_attr doc uri attr_name False allow_missing =
       Inl (DRACEmptyResponseField attr_name) \<and>
     (\<forall>doc' uri' attr_name' allow_missing' a.
        get_wsman_resource_attr doc' uri' attr_name' True allow_missing' \<noteq>
          Inl (DRACEmptyResponseField a))"
  by (auto simp: get_wsman_resource_attr_def text_strip_def split: option.splits if_splits)

theorem get_wsman_resource_attr_non_nil_no_text_witness:
  "get_wsman_resource_attr
     (response [field ''SetResult'' (Some ''Set PendingValue'') Map.empty,
                field ''Message'' None Map.empty])
     sample_uri ''Message'' True True = Inl AttributeError
   \<and> get_wsman_resource_attr
     (response [field ''SetResult'' (Some ''Set PendingValue'') Map.empty,
                field ''Message'' None Map.empty])
     sample_uri ''Message'' False True = Inl (DRACEmptyResponseField ''Message'')"
proof -
  let ?doc = "response [field ''SetResult'' (Some ''Set PendingValue'') Map.empty,
                        field ''Message'' None Map.empty]"
  let ?m = "field ''Message'' None Map.empty"
  have f: "find_xml ?doc ''Message'' sample_uri = Some ?m"
    by (simp add: find_defs sample_defs)
  have n: "is_attr_non_nil ?m"
    by (simp add: is_attr_non_nil_def field_def)
  have t: "elem_text ?m = None"
    by (simp add: field_def)
  from get_wsman_resource_attr_non_nil_no_text [OF f n t, of True]
  show ?thesis by simp
qed

end
